theory Spec2Isabelle
  imports Main "HOL-Library.Finite_Map"
begin

section \<open>The RealtimeAPI connection manager of \<^verbatim>\<open>lib/api.js\<close>\<close>

text \<open>
  A shallow embedding of the class \<^verbatim>\<open>RealtimeAPI\<close>: its constructor (credential and URL
  resolution), \<^verbatim>\<open>isConnected\<close>, \<^verbatim>\<open>log\<close>, \<^verbatim>\<open>connect\<close> with the listeners it installs on the
  transport, \<^verbatim>\<open>disconnect\<close>, \<^verbatim>\<open>receive\<close> and \<^verbatim>\<open>send\<close>.  Every \<^verbatim>\<open>throw\<close> of the source and
  every exception of a platform call the source makes is a value of type \<open>error\<close>; every
  call the object makes to a collaborator (the event bus, the console, the transport, the
  promise returned by \<^verbatim>\<open>connect\<close>) is appended, in program order, to a list of effects.
\<close>

subsection \<open>JavaScript values\<close>

text \<open>
  The values that reach the class: \<^verbatim>\<open>undefined\<close> and the JSON-compatible values.  An object
  is a finite map from property names to values, so a property name occurs once.  Numbers
  are integers (no claim depends on fractions), and the order of an object's properties
  is not modelled.
\<close>

datatype js_value =
    Undefined
  | Null
  | Bool bool
  | Num int
  | Str string
  | Arr "js_value list"
  | Obj "(string, js_value) fmap"

text \<open>\<^verbatim>\<open>!!v\<close>: the truthiness of a value.\<close>

fun truthy :: "js_value \<Rightarrow> bool" where
  "truthy Undefined = False"
| "truthy Null = False"
| "truthy (Bool b) = b"
| "truthy (Num n) = (n \<noteq> 0)"
| "truthy (Str s) = (s \<noteq> [])"
| "truthy (Arr xs) = True"
| "truthy (Obj m) = True"

text \<open>\<^verbatim>\<open>typeof v === 'object'\<close>: true of \<^verbatim>\<open>null\<close>, of arrays and of objects.\<close>

fun typeof_object :: "js_value \<Rightarrow> bool" where
  "typeof_object Null = True"
| "typeof_object (Arr xs) = True"
| "typeof_object (Obj m) = True"
| "typeof_object Undefined = False"
| "typeof_object (Bool b) = False"
| "typeof_object (Num n) = False"
| "typeof_object (Str s) = False"

text \<open>Decimal numerals, as JavaScript prints array indices and integers.\<close>

fun dec :: "nat \<Rightarrow> string" where
  "dec n = (if n < 10 then [''0123456789'' ! n]
            else dec (n div 10) @ [''0123456789'' ! (n mod 10)])"

definition dec_int :: "int \<Rightarrow> string" where
  "dec_int i = (if i < 0 then CHR ''-'' # dec (nat (- i)) else dec (nat i))"

text \<open>
  The own enumerable properties that the spread \<^verbatim>\<open>{...v}\<close> copies: the properties of an
  object, the indices of an array or of a string, nothing for the other values.
\<close>

fun own_props :: "js_value \<Rightarrow> (string, js_value) fmap" where
  "own_props (Obj m) = m"
| "own_props (Arr xs) = fmap_of_list (zip (map dec [0..<length xs]) xs)"
| "own_props (Str s) = fmap_of_list (zip (map dec [0..<length s]) (map (\<lambda>c. Str [c]) s))"
| "own_props Undefined = fmempty"
| "own_props Null = fmempty"
| "own_props (Bool b) = fmempty"
| "own_props (Num n) = fmempty"

text \<open>
  \<^verbatim>\<open>`${v}`\<close>: the string a template literal makes of a value.  An array is its elements
  joined by commas, with \<^verbatim>\<open>null\<close> and \<^verbatim>\<open>undefined\<close> elements printed as nothing.
\<close>

fun join_comma :: "string list \<Rightarrow> string" where
  "join_comma [] = []"
| "join_comma [s] = s"
| "join_comma (s # t # ss) = s @ '','' @ join_comma (t # ss)"

fun to_string :: "js_value \<Rightarrow> string" where
  "to_string Undefined = ''undefined''"
| "to_string Null = ''null''"
| "to_string (Bool b) = (if b then ''true'' else ''false'')"
| "to_string (Num n) = dec_int n"
| "to_string (Str s) = s"
| "to_string (Arr xs) =
     join_comma (map (\<lambda>x. if x = Null \<or> x = Undefined then [] else to_string x) xs)"
| "to_string (Obj m) = ''[object Object]''"

subsection \<open>URLs\<close>

text \<open>
  The platform class \<^verbatim>\<open>URL\<close> is not part of the repository.  A URL is kept in the parsed
  form that \<^verbatim>\<open>new URL(text)\<close> gives: the text before the query (scheme, host and path),
  the list of name-value pairs of \<^verbatim>\<open>searchParams\<close>, in order and with duplicates, and the
  fragment.  The string \<^verbatim>\<open>urlObj.toString()\<close> that the object stores in \<^verbatim>\<open>this.url\<close> is
  represented by the parsed form too, since parsing it again gives the same parts.
  For example \<^verbatim>\<open>wss://h/p?api-key=k\<close> is
  \<open>\<lparr>origin_path = ''wss://h/p'', searchParams = [(''api-key'', ''k'')], fragment = ''''\<rparr>\<close>.
\<close>

record url_obj =
  origin_path :: string
  searchParams :: "(string \<times> string) list"
  fragment :: string

text \<open>
  The \<^verbatim>\<open>url\<close> setting as the constructor sees it: falsy (absent or the empty string), a
  string that \<^verbatim>\<open>new URL\<close> rejects, or a string that it parses.
\<close>

datatype url_setting = Absent | Malformed | WellFormed url_obj

text \<open>
  \<^verbatim>\<open>searchParams.get(name)\<close>: the value of the first pair with that name, or \<^verbatim>\<open>null\<close>.
\<close>

fun sp_get :: "string \<Rightarrow> (string \<times> string) list \<Rightarrow> string option" where
  "sp_get name [] = None"
| "sp_get name ((k, v) # ps) = (if k = name then Some v else sp_get name ps)"

text \<open>
  \<^verbatim>\<open>searchParams.set(name, value)\<close>: the first pair with that name gets the value and the
  other pairs with that name are removed; without such a pair, a new pair is appended.
\<close>

fun sp_set :: "string \<Rightarrow> string \<Rightarrow> (string \<times> string) list \<Rightarrow> (string \<times> string) list" where
  "sp_set name value [] = [(name, value)]"
| "sp_set name value ((k, v) # ps) =
     (if k = name then (name, value) # filter (\<lambda>p. fst p \<noteq> name) ps
      else (k, v) # sp_set name value ps)"

subsection \<open>Errors\<close>

text \<open>
  One constructor for each \<^verbatim>\<open>throw\<close> of \<^verbatim>\<open>api.js\<close>, named by what the message says, and one
  for each exception that a platform call of the source raises.
  \<^item> \<open>ApiKeyMissing\<close>: \<^verbatim>\<open>Error('API key must be provided either in the URL or as a separate parameter')\<close>
  \<^item> \<open>ApiKeyMismatch\<close>: \<^verbatim>\<open>Error('API key in URL does not match the provided API key')\<close>
  \<^item> \<open>ApiKeyInBrowser\<close>: \<^verbatim>\<open>Error('Can not provide API key in the browser without
    "dangerouslyAllowAPIKeyInBrowser" set to true')\<close>
  \<^item> \<open>AlreadyConnected\<close>: \<^verbatim>\<open>Error('Already connected')\<close>
  \<^item> \<open>CouldNotConnect u\<close>: \<^verbatim>\<open>Error(`Could not connect to "${this.url}"`)\<close>
  \<^item> \<open>NotConnected\<close>: \<^verbatim>\<open>Error('RealtimeAPI is not connected')\<close>
  \<^item> \<open>DataMustBeObject\<close>: \<^verbatim>\<open>Error('data must be an object')\<close>
  \<^item> \<open>ReferenceError_defaultUrl\<close>: reading the undeclared identifier \<^verbatim>\<open>defaultUrl\<close>
  \<^item> \<open>TypeError_InvalidURL\<close>: \<^verbatim>\<open>new URL(url)\<close> on a string that is not a URL
  \<^item> \<open>TypeError_NullProperty\<close>: reading a property of \<^verbatim>\<open>null\<close>
  \<^item> \<open>SyntaxError_JSON\<close>: \<^verbatim>\<open>JSON.parse\<close> on a text that is not JSON
\<close>

datatype error =
    ApiKeyMissing
  | ApiKeyMismatch
  | ApiKeyInBrowser
  | AlreadyConnected
  | CouldNotConnect url_obj
  | NotConnected
  | DataMustBeObject
  | ReferenceError_defaultUrl
  | TypeError_InvalidURL
  | TypeError_NullProperty
  | SyntaxError_JSON

subsection \<open>Strings that may be missing\<close>

text \<open>
  Strings that may be \<^verbatim>\<open>undefined\<close> or \<^verbatim>\<open>null\<close> (\<open>None\<close>): \<open>present s\<close> is the test
  \<^verbatim>\<open>!!s\<close>, false of \<open>None\<close> and of the empty string; \<open>or_else a b\<close> is \<^verbatim>\<open>a || b\<close>;
  \<open>string_of s\<close> is the string that \<^verbatim>\<open>searchParams.set\<close> makes of its argument.
\<close>

fun present :: "string option \<Rightarrow> bool" where
  "present None = False"
| "present (Some s) = (s \<noteq> [])"

definition or_else :: "string option \<Rightarrow> string option \<Rightarrow> string option" where
  "or_else a b = (if present a then a else b)"

fun string_of :: "string option \<Rightarrow> string" where
  "string_of None = ''null''"
| "string_of (Some s) = s"

subsection \<open>The object and the world around it\<close>

text \<open>
  A transport object (the result of \<^verbatim>\<open>new WebSocket(...)\<close>) is known by its identity, a
  number.  The listeners that \<^verbatim>\<open>connect\<close> registers on it are named after the source:
  the \<^verbatim>\<open>message\<close> listener, \<^verbatim>\<open>connectionErrorHandler\<close>, the \<^verbatim>\<open>open\<close> listener, and the
  \<^verbatim>\<open>error\<close> and \<^verbatim>\<open>close\<close> listeners that the \<^verbatim>\<open>open\<close> listener adds.
\<close>

type_synonym handle = nat

datatype kind = KMessage | KError | KOpen | KClose

datatype listener =
    MessageListener
  | ConnectionErrorHandler
  | OpenListener
  | ErrorListener
  | CloseListener

datatype log_line =
    LogConnected url_obj
  | LogErrorDisconnected url_obj
  | LogDisconnected url_obj
  | LogReceived js_value js_value
  | LogSent string js_value

datatype promise_state = Pending | Fulfilled | Rejected error

text \<open>
  The calls the object makes to its collaborators: \<^verbatim>\<open>this.dispatch(name, event)\<close>,
  \<^verbatim>\<open>console.log\<close>, \<^verbatim>\<open>new WebSocket\<close>, \<^verbatim>\<open>ws.send(JSON.stringify(event))\<close> (the text sent is
  represented by the event it serialises), \<^verbatim>\<open>ws.close()\<close>, and the settling of the promise
  that \<^verbatim>\<open>connect\<close> returned for a transport object.
\<close>

datatype effect =
    Dispatch string js_value
  | ConsoleLog log_line
  | WsNew handle
  | WsSend handle js_value
  | WsClose handle
  | Resolve handle
  | Reject handle error

text \<open>
  The fields of the object (\<open>defaultUrl\<close>, \<open>apiKey\<close>, \<open>debug\<close>, \<open>ws\<close>, \<open>url\<close>) and, with
  them, the world the object acts on: the effects so far, the listeners registered on
  each transport object, and the state of the promise of each \<^verbatim>\<open>connect\<close> call.
\<close>

record state =
  defaultUrl :: string
  apiKey :: "string option"
  debug :: bool
  ws :: "handle option"
  url :: url_obj
  effects :: "effect list"
  listeners :: "handle \<Rightarrow> (kind \<times> listener) list"
  promise :: "handle \<Rightarrow> promise_state option"

subsection \<open>The constructor\<close>

text \<open>
  \<open>constructor document url apiKey dangerouslyAllowAPIKeyInBrowser debug\<close>, where
  \<open>document\<close> says whether \<^verbatim>\<open>globalThis.document\<close> is there and the other arguments
  are the fields of the settings.  The first assignment \<^verbatim>\<open>this.apiKey = apiKey || null\<close>
  does not show: the branch with a URL assigns the field again before it is read, and
  the branch without a URL does not return.  That branch reads \<^verbatim>\<open>defaultUrl\<close>, an
  identifier that no scope declares (the default is the field \<^verbatim>\<open>this.defaultUrl\<close>),
  which raises a ReferenceError.
\<close>

definition constructor ::
  "bool \<Rightarrow> url_setting \<Rightarrow> string option \<Rightarrow> bool \<Rightarrow> bool \<Rightarrow> error + state" where
  "constructor document url_arg apiKey_arg dangerouslyAllowAPIKeyInBrowser debug_arg =
     (case url_arg of
        Absent \<Rightarrow> Inl ReferenceError_defaultUrl
      | Malformed \<Rightarrow> Inl TypeError_InvalidURL
      | WellFormed urlObj \<Rightarrow>
          (let urlApiKey = sp_get ''api-key'' (searchParams urlObj) in
           if \<not> present urlApiKey \<and> \<not> present apiKey_arg then Inl ApiKeyMissing
           else if present urlApiKey \<and> present apiKey_arg \<and> urlApiKey \<noteq> apiKey_arg
           then Inl ApiKeyMismatch
           else
             (let this_apiKey = or_else urlApiKey apiKey_arg;
                  urlObj' =
                    (if \<not> present urlApiKey
                     then urlObj\<lparr>searchParams :=
                            sp_set ''api-key'' (string_of this_apiKey) (searchParams urlObj)\<rparr>
                     else urlObj)
              in if document \<and> present this_apiKey \<and> \<not> dangerouslyAllowAPIKeyInBrowser
                 then Inl ApiKeyInBrowser
                 else Inr \<lparr>defaultUrl = ''wss://api.openai.com/v1/realtime'',
                           apiKey = this_apiKey,
                           debug = debug_arg,
                           ws = None,
                           url = urlObj',
                           effects = [],
                           listeners = (\<lambda>h. []),
                           promise = (\<lambda>h. None)\<rparr>)))"

subsection \<open>The methods\<close>

text \<open>\<^verbatim>\<open>isConnected()\<close> is \<^verbatim>\<open>!!this.ws\<close>.\<close>

definition isConnected :: "state \<Rightarrow> bool" where
  "isConnected st = (ws st \<noteq> None)"

text \<open>
  \<^verbatim>\<open>log(...args)\<close> prints only when \<^verbatim>\<open>this.debug\<close> is set (the date it prints is left out)
  and returns \<^verbatim>\<open>true\<close>, which no caller reads.
\<close>

definition log :: "log_line \<Rightarrow> state \<Rightarrow> state" where
  "log line st = (if debug st then st\<lparr>effects := effects st @ [ConsoleLog line]\<rparr> else st)"

text \<open>
  Modelled from the spec: \<^verbatim>\<open>dispatch\<close> of the event bus, inherited from
  \<^verbatim>\<open>RealtimeEventHandler\<close> (\<^verbatim>\<open>event_handler.js\<close> is not among the sources).  The spec has it
  invoke, synchronously and in registration order, the handlers registered for the name,
  and return nothing.  The model records the call with its name and event; a handler is
  taken to observe the object, not to call back into it.
\<close>

definition dispatch :: "string \<Rightarrow> js_value \<Rightarrow> state \<Rightarrow> state" where
  "dispatch eventName event st = st\<lparr>effects := effects st @ [Dispatch eventName event]\<rparr>"

text \<open>
  \<^verbatim>\<open>disconnect(ws)\<close>: the body runs when no argument is given or when the argument is the
  transport object held in \<^verbatim>\<open>this.ws\<close>; it closes the held object, if there is one, clears
  the field and returns \<^verbatim>\<open>true\<close>.  Otherwise the method falls off its end and returns
  \<^verbatim>\<open>undefined\<close>.
\<close>

definition disconnect :: "handle option \<Rightarrow> state \<Rightarrow> js_value \<times> state" where
  "disconnect ws_arg st =
     (if ws_arg = None \<or> ws st = ws_arg
      then (Bool True,
            (case ws st of
               None \<Rightarrow> st
             | Some h \<Rightarrow> st\<lparr>effects := effects st @ [WsClose h]\<rparr>)\<lparr>ws := None\<rparr>)
      else (Undefined, st))"

text \<open>\<^verbatim>\<open>receive(eventName, event)\<close>.\<close>

definition receive :: "js_value \<Rightarrow> js_value \<Rightarrow> state \<Rightarrow> js_value \<times> state" where
  "receive eventName event st =
     (let st1 = log (LogReceived eventName event) st;
          st2 = dispatch (''server.'' @ to_string eventName) event st1;
          st3 = dispatch ''server.*'' event st2
      in (Bool True, st3))"

text \<open>
  The object literal of \<^verbatim>\<open>send\<close>:
  \<^verbatim>\<open>{ event_id: RealtimeUtils.generateId('evt_'), type: eventName, ...data }\<close>.
  \<open>generateId\<close> stands for \<^verbatim>\<open>RealtimeUtils.generateId\<close> (\<^verbatim>\<open>utils.js\<close> is not among the
  sources), taken as a parameter: the identifier it returns at this call for the given
  prefix.  The literal writes \<^verbatim>\<open>event_id\<close> and \<^verbatim>\<open>type\<close> first and spreads \<^verbatim>\<open>data\<close> after
  them, so a property of \<^verbatim>\<open>data\<close> replaces either.
\<close>

definition build_event :: "(string \<Rightarrow> string) \<Rightarrow> string \<Rightarrow> js_value \<Rightarrow> js_value" where
  "build_event generateId eventName data =
     Obj (fmap_of_list [(''event_id'', Str (generateId ''evt_'')), (''type'', Str eventName)]
          ++\<^sub>f own_props data)"

text \<open>
  \<^verbatim>\<open>send(eventName, data)\<close>.  The result is what the call returns or throws, with the
  state it leaves.  Both checks throw before anything has happened.  The last line reads
  \<^verbatim>\<open>this.ws\<close> again, which would raise a TypeError were the field \<^verbatim>\<open>null\<close> by then.
\<close>

definition send ::
  "(string \<Rightarrow> string) \<Rightarrow> string \<Rightarrow> js_value \<Rightarrow> state \<Rightarrow> (error + js_value) \<times> state" where
  "send generateId eventName data_arg st =
     (if \<not> isConnected st then (Inl NotConnected, st)
      else
        (let data = (if truthy data_arg then data_arg else Obj fmempty) in
         if \<not> typeof_object data then (Inl DataMustBeObject, st)
         else
           (let event = build_event generateId eventName data;
                st1 = dispatch (''client.'' @ eventName) event st;
                st2 = dispatch ''client.*'' event st1;
                st3 = log (LogSent eventName event) st2
            in case ws st3 of
                 None \<Rightarrow> (Inl TypeError_NullProperty, st3)
               | Some h \<Rightarrow> (Inr (Bool True), st3\<lparr>effects := effects st3 @ [WsSend h event]\<rparr>))))"

subsection \<open>Connecting, and the listeners on the transport\<close>

text \<open>
  \<^verbatim>\<open>connect()\<close> up to the point where it returns its promise.  \<open>h\<close> is the transport object
  that \<^verbatim>\<open>new WebSocket(...)\<close> makes.  The browser branch and the Node branch register the
  same three listeners; the URL they hand to the transport is not recorded.  The method
  is \<^verbatim>\<open>async\<close>, so \<open>Inl AlreadyConnected\<close> is a promise rejected with that error.
\<close>

definition connect :: "handle \<Rightarrow> state \<Rightarrow> error + state" where
  "connect h st =
     (if isConnected st then Inl AlreadyConnected
      else Inr (st\<lparr>effects := effects st @ [WsNew h],
                  listeners := (listeners st)
                    (h := [(KMessage, MessageListener),
                           (KError, ConnectionErrorHandler),
                           (KOpen, OpenListener)]),
                  promise := (promise st)(h \<mapsto> Pending)\<rparr>))"

text \<open>\<^verbatim>\<open>resolve(true)\<close> and \<^verbatim>\<open>reject(e)\<close>: a promise is settled once.\<close>

definition resolve :: "handle \<Rightarrow> state \<Rightarrow> state" where
  "resolve h st =
     (if promise st h = Some Pending
      then st\<lparr>promise := (promise st)(h \<mapsto> Fulfilled), effects := effects st @ [Resolve h]\<rparr>
      else st)"

definition reject :: "handle \<Rightarrow> error \<Rightarrow> state \<Rightarrow> state" where
  "reject h e st =
     (if promise st h = Some Pending
      then st\<lparr>promise := (promise st)(h \<mapsto> Rejected e), effects := effects st @ [Reject h e]\<rparr>
      else st)"

text \<open>
  What the transport delivers to the \<^verbatim>\<open>message\<close> listener, as \<^verbatim>\<open>JSON.parse\<close> sees it: a text
  that is not JSON, or the value that a JSON text denotes.
\<close>

datatype inbound = NotJSON | JSON js_value

text \<open>\<^verbatim>\<open>message.type\<close>: reading the property of \<^verbatim>\<open>null\<close> raises a TypeError.\<close>

fun get_type :: "js_value \<Rightarrow> error + js_value" where
  "get_type Null = Inl TypeError_NullProperty"
| "get_type Undefined = Inl TypeError_NullProperty"
| "get_type (Obj m) = Inr (case fmlookup m ''type'' of None \<Rightarrow> Undefined | Some v \<Rightarrow> v)"
| "get_type (Arr xs) = Inr Undefined"
| "get_type (Bool b) = Inr Undefined"
| "get_type (Num n) = Inr Undefined"
| "get_type (Str s) = Inr Undefined"

text \<open>
  The \<^verbatim>\<open>message\<close> listener: \<^verbatim>\<open>JSON.parse\<close>, then \<^verbatim>\<open>this.receive(message.type, message)\<close>.
  An exception leaves the listener before anything else has happened.
\<close>

definition message_listener :: "inbound \<Rightarrow> state \<Rightarrow> error option \<times> state" where
  "message_listener raw st =
     (case raw of
        NotJSON \<Rightarrow> (Some SyntaxError_JSON, st)
      | JSON message \<Rightarrow>
          (case get_type message of
             Inl e \<Rightarrow> (Some e, st)
           | Inr t \<Rightarrow> (None, snd (receive t message st))))"

text \<open>\<^verbatim>\<open>connectionErrorHandler\<close>, the \<^verbatim>\<open>error\<close> listener until the transport opens.\<close>

definition connectionErrorHandler :: "handle \<Rightarrow> state \<Rightarrow> state" where
  "connectionErrorHandler h st =
     (let st1 = snd (disconnect (Some h) st)
      in reject h (CouldNotConnect (url st1)) st1)"

text \<open>
  The \<^verbatim>\<open>open\<close> listener: it takes \<^verbatim>\<open>connectionErrorHandler\<close> off, adds the \<^verbatim>\<open>error\<close> and
  \<^verbatim>\<open>close\<close> listeners of an open connection, stores the transport object and resolves.
\<close>

definition open_listener :: "handle \<Rightarrow> state \<Rightarrow> state" where
  "open_listener h st =
     (let st1 = log (LogConnected (url st)) st;
          st2 = st1\<lparr>listeners := (listeners st1)
                  (h := remove1 (KError, ConnectionErrorHandler) (listeners st1 h)
                        @ [(KError, ErrorListener), (KClose, CloseListener)])\<rparr>;
          st3 = st2\<lparr>ws := Some h\<rparr>
      in resolve h st3)"

definition error_listener :: "handle \<Rightarrow> state \<Rightarrow> state" where
  "error_listener h st =
     (let st1 = snd (disconnect (Some h) st);
          st2 = log (LogErrorDisconnected (url st1)) st1
      in dispatch ''close'' (Obj (fmap_of_list [(''error'', Bool True)])) st2)"

definition close_listener :: "handle \<Rightarrow> state \<Rightarrow> state" where
  "close_listener h st =
     (let st1 = snd (disconnect (Some h) st);
          st2 = log (LogDisconnected (url st1)) st1
      in dispatch ''close'' (Obj (fmap_of_list [(''error'', Bool False)])) st2)"

text \<open>
  The transport emitting an event on the object \<open>h\<close>: the listeners registered for that
  kind of event run in registration order, and an exception in one of them ends the run.
\<close>

datatype ws_event = MessageEvent inbound | ErrorEvent | OpenEvent | CloseEvent

fun kind_of :: "ws_event \<Rightarrow> kind" where
  "kind_of (MessageEvent raw) = KMessage"
| "kind_of ErrorEvent = KError"
| "kind_of OpenEvent = KOpen"
| "kind_of CloseEvent = KClose"

fun run_listener :: "handle \<Rightarrow> ws_event \<Rightarrow> listener \<Rightarrow> state \<Rightarrow> error option \<times> state" where
  "run_listener h (MessageEvent raw) MessageListener st = message_listener raw st"
| "run_listener h ev MessageListener st = (None, st)"
| "run_listener h ev ConnectionErrorHandler st = (None, connectionErrorHandler h st)"
| "run_listener h ev OpenListener st = (None, open_listener h st)"
| "run_listener h ev ErrorListener st = (None, error_listener h st)"
| "run_listener h ev CloseListener st = (None, close_listener h st)"

fun run_all :: "handle \<Rightarrow> ws_event \<Rightarrow> listener list \<Rightarrow> state \<Rightarrow> error option \<times> state" where
  "run_all h ev [] st = (None, st)"
| "run_all h ev (l # ls) st =
     (case run_listener h ev l st of
        (Some e, st') \<Rightarrow> (Some e, st')
      | (None, st') \<Rightarrow> run_all h ev ls st')"

definition emit :: "handle \<Rightarrow> ws_event \<Rightarrow> state \<Rightarrow> error option \<times> state" where
  "emit h ev st =
     run_all h ev (map snd (filter (\<lambda>p. fst p = kind_of ev) (listeners st h))) st"

subsection \<open>Reading values and effects\<close>

text \<open>\<open>get_prop v k\<close> is the own property \<open>k\<close> of the value \<open>v\<close>, if it has one.\<close>

definition get_prop :: "js_value \<Rightarrow> string \<Rightarrow> js_value option" where
  "get_prop v k = fmlookup (own_props v) k"

text \<open>The events dispatched under a name, in order.\<close>

fun dispatched :: "string \<Rightarrow> effect list \<Rightarrow> js_value list" where
  "dispatched n [] = []"
| "dispatched n (Dispatch m e # es) = (if m = n then e # dispatched n es else dispatched n es)"
| "dispatched n (ConsoleLog l # es) = dispatched n es"
| "dispatched n (WsNew h # es) = dispatched n es"
| "dispatched n (WsSend h e # es) = dispatched n es"
| "dispatched n (WsClose h # es) = dispatched n es"
| "dispatched n (Resolve h # es) = dispatched n es"
| "dispatched n (Reject h e # es) = dispatched n es"

fun is_dispatch :: "effect \<Rightarrow> bool" where
  "is_dispatch (Dispatch m e) = True"
| "is_dispatch (ConsoleLog l) = False"
| "is_dispatch (WsNew h) = False"
| "is_dispatch (WsSend h e) = False"
| "is_dispatch (WsClose h) = False"
| "is_dispatch (Resolve h) = False"
| "is_dispatch (Reject h e) = False"

fun is_wire_write :: "effect \<Rightarrow> bool" where
  "is_wire_write (WsSend h e) = True"
| "is_wire_write (Dispatch m e) = False"
| "is_wire_write (ConsoleLog l) = False"
| "is_wire_write (WsNew h) = False"
| "is_wire_write (WsClose h) = False"
| "is_wire_write (Resolve h) = False"
| "is_wire_write (Reject h e) = False"

text \<open>
  The wire writes that a listener finds done when it is invoked: those that precede the
  first dispatch, respectively the last dispatch, in a list of effects.
\<close>

definition written_before_first_dispatch :: "effect list \<Rightarrow> effect list" where
  "written_before_first_dispatch es = filter is_wire_write (takeWhile (\<lambda>e. \<not> is_dispatch e) es)"

definition written_before_last_dispatch :: "effect list \<Rightarrow> effect list" where
  "written_before_last_dispatch es =
     filter is_wire_write (rev (dropWhile (\<lambda>e. \<not> is_dispatch e) (rev es)))"

text \<open>The effects that a step from \<open>st\<close> to \<open>st'\<close> has added.\<close>

definition new_effects :: "state \<Rightarrow> state \<Rightarrow> effect list" where
  "new_effects st st' = drop (length (effects st)) (effects st')"

subsection \<open>The identifier generator\<close>

text \<open>
  Modelled from the spec: \<^verbatim>\<open>RealtimeUtils.generateId\<close> (\<^verbatim>\<open>utils.js\<close> is not among the
  sources).  The spec has it produce unique event ids, fresh at each call and not empty,
  and says no more.  In the model the call number \<open>n\<close> of the generator returns the
  prefix followed by the decimal numeral of \<open>n\<close>; \<open>generateId n\<close> is what \<^verbatim>\<open>send\<close> takes
  for its generator when it makes that call.
\<close>

definition generateId :: "nat \<Rightarrow> string \<Rightarrow> string" where
  "generateId n prefix = prefix @ dec n"

subsection \<open>The event literal on a store of objects\<close>

text \<open>
  Whether \<^verbatim>\<open>send\<close> writes to the object its caller passed shows only when objects have
  addresses.  A store maps the addresses in use to the properties of the object there.
  \<open>define_prop\<close> writes one property of the object at an address, and \<open>copy_props\<close> is
  the spread \<^verbatim>\<open>...data\<close>: it reads the object at \<open>p\<close> and writes each of its properties,
  with the value as it is, to the object at \<open>a\<close>.
\<close>

type_synonym address = nat

type_synonym store = "address \<Rightarrow> (string, js_value) fmap option"

definition define_prop :: "address \<Rightarrow> string \<Rightarrow> js_value \<Rightarrow> store \<Rightarrow> store" where
  "define_prop a k v s = (case s a of None \<Rightarrow> s | Some obj \<Rightarrow> s(a \<mapsto> fmupd k v obj))"

definition copy_props :: "address \<Rightarrow> address \<Rightarrow> store \<Rightarrow> store" where
  "copy_props p a s =
     (case s p of
        None \<Rightarrow> s
      | Some src \<Rightarrow> (case s a of None \<Rightarrow> s | Some obj \<Rightarrow> s(a \<mapsto> obj ++\<^sub>f src)))"

text \<open>
  The object literal of \<^verbatim>\<open>send\<close>, statement by statement: an empty object is made at the
  address \<open>a\<close> that the engine allocates, \<^verbatim>\<open>event_id\<close> and \<^verbatim>\<open>type\<close> are written to it, and
  the properties of \<^verbatim>\<open>data\<close>, the object at \<open>p\<close>, are copied to it.  \<open>p\<close> is the address of
  the object that \<^verbatim>\<open>data\<close> names after \<^verbatim>\<open>data = data || {}\<close>: the caller's payload when it
  is truthy.
\<close>

definition event_literal ::
  "(string \<Rightarrow> string) \<Rightarrow> string \<Rightarrow> address \<Rightarrow> address \<Rightarrow> store \<Rightarrow> store" where
  "event_literal gen eventName p a s =
     (let s1 = s(a \<mapsto> fmempty);
          s2 = define_prop a ''event_id'' (Str (gen ''evt_'')) s1;
          s3 = define_prop a ''type'' (Str eventName) s2
      in copy_props p a s3)"

subsection \<open>Example objects\<close>

text \<open>
  \<open>example_idle\<close> is the object that \<^verbatim>\<open>new RealtimeAPI({ url: 'wss://h/p', apiKey: 'k' })\<close>
  makes outside a browser.  \<open>example_pending\<close> is that object after \<^verbatim>\<open>connect()\<close> has made
  the transport object \<open>1\<close>, and \<open>example_open\<close> after the transport has then emitted
  \<^verbatim>\<open>open\<close>.
\<close>

definition example_url :: url_obj where
  "example_url = \<lparr>origin_path = ''wss://h/p'', searchParams = [], fragment = ''''\<rparr>"

definition example_url_with_key :: url_obj where
  "example_url_with_key =
     \<lparr>origin_path = ''wss://h/p'', searchParams = [(''api-key'', ''k'')], fragment = ''''\<rparr>"

definition example_idle :: state where
  "example_idle =
     \<lparr>defaultUrl = ''wss://api.openai.com/v1/realtime'',
      apiKey = Some ''k'',
      debug = False,
      ws = None,
      url = example_url_with_key,
      effects = [],
      listeners = (\<lambda>h. []),
      promise = (\<lambda>h. None)\<rparr>"

definition example_pending :: state where
  "example_pending =
     example_idle
       \<lparr>effects := [WsNew 1],
        listeners := (\<lambda>h. [])
          (1 := [(KMessage, MessageListener), (KError, ConnectionErrorHandler),
                 (KOpen, OpenListener)]),
        promise := (\<lambda>h. None)(1 \<mapsto> Pending)\<rparr>"

definition example_open :: state where
  "example_open =
     example_idle
       \<lparr>ws := Some 1,
        effects := [WsNew 1, Resolve 1],
        listeners := (\<lambda>h. [])
          (1 := [(KMessage, MessageListener), (KOpen, OpenListener),
                 (KError, ErrorListener), (KClose, CloseListener)]),
        promise := (\<lambda>h. None)(1 \<mapsto> Fulfilled)\<rparr>"

text \<open>An identifier generator for the examples.\<close>

definition example_generateId :: "string \<Rightarrow> string" where
  "example_generateId prefix = prefix @ ''0001''"

text \<open>A store with the payload \<^verbatim>\<open>{ foo: 1 }\<close> at the address \<open>7\<close> and nothing else.\<close>

definition example_store :: store where
  "example_store = (\<lambda>a. None)(7 := Some (fmap_of_list [(''foo'', Num 1)]))"

section \<open>Properties\<close>

subsection \<open>The example objects are reachable\<close>

lemma example_idle_constructed:
  "constructor False (WellFormed example_url) (Some ''k'') False False = Inr example_idle"
  by (simp add: constructor_def example_url_def example_url_with_key_def example_idle_def
      or_else_def)

lemma example_pending_connecting:
  "connect 1 example_idle = Inr example_pending"
  by (simp add: connect_def isConnected_def example_idle_def example_pending_def)

lemma example_open_opened:
  "emit 1 OpenEvent example_pending = (None, example_open)"
  by (simp add: emit_def open_listener_def log_def resolve_def example_pending_def
      example_open_def example_idle_def)

subsection \<open>Helper facts\<close>

lemma sp_get_sp_set: "sp_get name (sp_set name v ps) = Some v"
  by (induction ps) auto

lemma own_props_falsy: "\<not> truthy d \<Longrightarrow> own_props d = fmempty"
  by (cases d) auto

lemma build_event_falsy:
  "\<not> truthy d \<Longrightarrow> build_event gen t (Obj fmempty) = build_event gen t d"
  by (simp add: build_event_def own_props_falsy)

text \<open>
  What \<^verbatim>\<open>send\<close> does on a connected object when the payload is falsy (and so replaced by
  the empty object) or has \<^verbatim>\<open>typeof\<close> \<^verbatim>\<open>'object'\<close>.
\<close>

lemma send_accepted:
  assumes "ws st = Some h" and "typeof_object d \<or> \<not> truthy d"
  shows "send gen t d st =
           (Inr (Bool True),
            st\<lparr>effects := effects st
                 @ [Dispatch (''client.'' @ t) (build_event gen t d),
                    Dispatch ''client.*'' (build_event gen t d)]
                 @ (if debug st then [ConsoleLog (LogSent t (build_event gen t d))] else [])
                 @ [WsSend h (build_event gen t d)]\<rparr>)"
  using assms
  by (auto simp: send_def isConnected_def dispatch_def log_def Let_def build_event_falsy)

lemma build_event_payload:
  "fmlookup (own_props d) k = Some v \<Longrightarrow> get_prop (build_event gen t d) k = Some v"
  by (simp add: build_event_def get_prop_def fmdomI)

lemma build_event_type:
  "fmlookup (own_props d) ''type'' = None \<Longrightarrow>
     get_prop (build_event gen t d) ''type'' = Some (Str t)"
  by (simp add: build_event_def get_prop_def fmdom_notI)

lemma build_event_id:
  "fmlookup (own_props d) ''event_id'' = None \<Longrightarrow>
     get_prop (build_event gen t d) ''event_id'' = Some (Str (gen ''evt_''))"
  by (simp add: build_event_def get_prop_def fmdom_notI)

text \<open>Decimal numerals are not empty, and different numbers have different numerals.\<close>

lemma dec_not_empty: "dec n \<noteq> []"
  by (subst dec.simps) simp

lemma dec_small: "n < 10 \<Longrightarrow> dec n = [''0123456789'' ! n]"
  by (subst dec.simps) simp

lemma dec_large: "\<not> n < 10 \<Longrightarrow> dec n = dec (n div 10) @ [''0123456789'' ! (n mod 10)]"
  by (subst dec.simps) simp

lemma digit_inj:
  "i < 10 \<Longrightarrow> j < 10 \<Longrightarrow> ''0123456789'' ! i = ''0123456789'' ! j \<Longrightarrow> i = j"
proof -
  assume a: "i < 10" "j < 10" "''0123456789'' ! i = ''0123456789'' ! j"
  have d: "distinct ''0123456789''" by simp
  have l: "length ''0123456789'' = 10" by simp
  show ?thesis
    using nth_eq_iff_index_eq [OF d, of i j] a l by metis
qed

lemma single_not_snoc: "xs \<noteq> [] \<Longrightarrow> [x] \<noteq> xs @ [y]"
  by (cases xs) auto

lemma dec_inj: "dec m = dec n \<Longrightarrow> m = n"
proof (induction m arbitrary: n rule: dec.induct)
  case (1 m)
  show ?case
  proof (cases "m < 10")
    case m: True
    show ?thesis
    proof (cases "n < 10")
      case True
      from "1.prems" have "''0123456789'' ! m = ''0123456789'' ! n"
        unfolding dec_small [OF m] dec_small [OF True]
        by (rule list.inject [THEN iffD1, THEN conjunct1])
      with m True show ?thesis
        by (rule digit_inj)
    next
      case False
      from "1.prems" have "[''0123456789'' ! m] = dec (n div 10) @ [''0123456789'' ! (n mod 10)]"
        unfolding dec_small [OF m] dec_large [OF False] .
      with single_not_snoc [OF dec_not_empty] show ?thesis
        by blast
    qed
  next
    case m: False
    show ?thesis
    proof (cases "n < 10")
      case True
      from "1.prems" have "dec (m div 10) @ [''0123456789'' ! (m mod 10)] = [''0123456789'' ! n]"
        unfolding dec_large [OF m] dec_small [OF True] .
      with single_not_snoc [OF dec_not_empty] show ?thesis
        by metis
    next
      case False
      from "1.prems"
      have "dec (m div 10) @ [''0123456789'' ! (m mod 10)]
              = dec (n div 10) @ [''0123456789'' ! (n mod 10)]"
        unfolding dec_large [OF m] dec_large [OF False] .
      then have a: "dec (m div 10) = dec (n div 10)"
        and b: "''0123456789'' ! (m mod 10) = ''0123456789'' ! (n mod 10)"
        by (simp_all del: dec.simps)
      from a have "m div 10 = n div 10"
        using "1.IH" m by blast
      moreover have "m mod 10 = n mod 10"
        by (rule digit_inj [OF _ _ b]) simp_all
      ultimately show ?thesis
        by (metis div_mult_mod_eq)
    qed
  qed
qed

text \<open>The identifiers of the generator are not empty, and no two calls return the same.\<close>

lemma generateId_not_empty: "generateId n prefix \<noteq> []"
  by (simp add: generateId_def dec_not_empty del: dec.simps)

lemma generateId_fresh: "m \<noteq> n \<Longrightarrow> generateId m prefix \<noteq> generateId n prefix"
  by (auto simp: generateId_def simp del: dec.simps dest: dec_inj)

text \<open>
  With the payload at \<open>p\<close> and the address \<open>a\<close> not in use, the event literal changes the
  store at \<open>a\<close> only, where it leaves the stamped fields overridden by the payload's.
\<close>

lemma event_literal_fresh:
  assumes "s a = None" and "s p = Some src"
  shows "event_literal gen t p a s =
           s(a \<mapsto> fmap_of_list [(''event_id'', Str (gen ''evt_'')), (''type'', Str t)] ++\<^sub>f src)"
proof -
  have ne: "a \<noteq> p" using assms by auto
  have "fmupd ''type'' (Str t) (fmupd ''event_id'' (Str (gen ''evt_'')) fmempty)
          = fmap_of_list [(''event_id'', Str (gen ''evt_'')), (''type'', Str t)]"
    by (rule fmap_ext) auto
  then show ?thesis
    using assms ne
    by (simp add: event_literal_def define_prop_def copy_props_def Let_def)
qed

subsection \<open>C1: resolving the credential\<close>

text \<open>
  C1, as stated, fails.  The claim has construction succeed whenever the credential \<open>X\<close>
  embedded in the URL equals the explicit credential.  In a browser-like environment
  without the opt-in flag, \<^verbatim>\<open>new RealtimeAPI({ url: 'wss://h/p?api-key=k', apiKey: 'k' })\<close>
  raises the error of the browser check instead.
\<close>

theorem constructor_matching_keys_in_browser:
  "constructor True (WellFormed example_url_with_key) (Some ''k'') False False
     = Inl ApiKeyInBrowser"
  by (simp add: constructor_def example_url_with_key_def or_else_def)

text \<open>
  C1, amended.  A credential is a non-empty string: the conditions \<^verbatim>\<open>!urlApiKey\<close> and
  \<^verbatim>\<open>!apiKey\<close> of the code take the empty string for an absent one.  Let the URL \<open>u\<close> embed the credential \<open>X\<close> (the value that
  \<^verbatim>\<open>searchParams.get('api-key')\<close> returns), let \<open>Z\<close> be an explicit credential that differs
  from \<open>X\<close> and \<open>Y\<close> any explicit credential, let \<open>a\<close> be an absent explicit credential
  and \<open>v\<close> a URL without an embedded credential.  Then, in every environment,
  constructing with \<open>u\<close> and \<open>Z\<close> raises the mismatch error, and constructing with \<open>v\<close>
  and no explicit credential raises the missing-credential error.  Outside a
  browser-like environment, or with the opt-in flag set: constructing with \<open>u\<close> and \<open>X\<close>
  succeeds with the stored credential \<open>X\<close>; constructing with \<open>u\<close> and no explicit
  credential succeeds with credential \<open>X\<close> and the stored URL is \<open>u\<close>, which still carries
  \<open>api-key=X\<close>; constructing with \<open>v\<close> and \<open>Y\<close> succeeds with credential \<open>Y\<close>, and the
  query of the stored URL carries \<open>api-key=Y\<close>.
\<close>

theorem constructor_credential_resolution:
  assumes X: "sp_get ''api-key'' (searchParams u) = Some X" "X \<noteq> []"
      and Z: "Z \<noteq> []" "X \<noteq> Z"
      and Y: "Y \<noteq> []"
      and a: "\<not> present a"
      and v: "\<not> present (sp_get ''api-key'' (searchParams v))"
      and env: "allow \<or> \<not> document"
  shows "constructor document' (WellFormed u) (Some Z) allow' dbg = Inl ApiKeyMismatch
       \<and> (\<exists>st. constructor document (WellFormed u) (Some X) allow dbg = Inr st
                  \<and> apiKey st = Some X \<and> url st = u)
       \<and> (\<exists>st. constructor document (WellFormed u) a allow dbg = Inr st
                  \<and> apiKey st = Some X \<and> url st = u
                  \<and> sp_get ''api-key'' (searchParams (url st)) = Some X)
       \<and> constructor document' (WellFormed v) a allow' dbg = Inl ApiKeyMissing
       \<and> (\<exists>st. constructor document (WellFormed v) (Some Y) allow dbg = Inr st
                  \<and> apiKey st = Some Y
                  \<and> sp_get ''api-key'' (searchParams (url st)) = Some Y)"
  using assms
  by (auto simp: constructor_def or_else_def sp_get_sp_set Let_def)

text \<open>
  The amended C1 in a browser with the opt-in flag set, at the URLs
  \<^verbatim>\<open>wss://h/p?api-key=k\<close> and \<^verbatim>\<open>wss://h/p\<close> and the explicit credentials \<open>j\<close> and \<open>i\<close>.
\<close>

theorem constructor_credential_resolution_witness:
  "sp_get ''api-key'' (searchParams example_url_with_key) = Some ''k'' \<and> ''k'' \<noteq> ''''
   \<and> ''j'' \<noteq> '''' \<and> ''k'' \<noteq> ''j'' \<and> ''i'' \<noteq> '''' \<and> \<not> present None
   \<and> \<not> present (sp_get ''api-key'' (searchParams example_url))
   \<and> (True \<or> \<not> True)
   \<and> constructor True (WellFormed example_url_with_key) (Some ''j'') False False
       = Inl ApiKeyMismatch
   \<and> (\<exists>st. constructor True (WellFormed example_url_with_key) (Some ''k'') True False = Inr st
         \<and> apiKey st = Some ''k'' \<and> url st = example_url_with_key)
   \<and> (\<exists>st. constructor True (WellFormed example_url_with_key) None True False = Inr st
         \<and> apiKey st = Some ''k'' \<and> url st = example_url_with_key
         \<and> sp_get ''api-key'' (searchParams (url st)) = Some ''k'')
   \<and> constructor True (WellFormed example_url) None False False = Inl ApiKeyMissing
   \<and> (\<exists>st. constructor True (WellFormed example_url) (Some ''i'') True False = Inr st
         \<and> apiKey st = Some ''i''
         \<and> sp_get ''api-key'' (searchParams (url st)) = Some ''i'')"
proof -
  have h: "sp_get ''api-key'' (searchParams example_url_with_key) = Some ''k''"
    "''k'' \<noteq> ''''" "''j'' \<noteq> ''''" "''k'' \<noteq> ''j''" "''i'' \<noteq> ''''" "\<not> present None"
    "\<not> present (sp_get ''api-key'' (searchParams example_url))" "True \<or> \<not> True"
    by (simp_all add: example_url_with_key_def example_url_def)
  show ?thesis
    using h constructor_credential_resolution [OF h, of True False False]
    by simp
qed

subsection \<open>C2: a transport error before the transport opens\<close>

text \<open>
  C2.  The claim has the transport object closed before the pending \<^verbatim>\<open>connect()\<close> is
  rejected.  The code does not close it.  On the object made from \<^verbatim>\<open>wss://h/p\<close> and the
  credential \<open>k\<close>, \<^verbatim>\<open>connect()\<close> makes the transport object \<open>1\<close>; when the transport then
  emits \<^verbatim>\<open>error\<close>, \<^verbatim>\<open>connectionErrorHandler\<close> calls \<^verbatim>\<open>this.disconnect(ws)\<close>, whose test
  \<^verbatim>\<open>!ws || this.ws === ws\<close> fails because \<^verbatim>\<open>this.ws\<close> is still \<^verbatim>\<open>null\<close>: the call returns
  \<^verbatim>\<open>undefined\<close> and changes nothing.  The promise is rejected and the object is not
  connected, but \<^verbatim>\<open>ws.close()\<close> has not been called.
\<close>

theorem error_before_open_leaves_transport_unclosed:
  "connect 1 example_idle = Inr example_pending
   \<and> disconnect (Some 1) example_pending = (Undefined, example_pending)
   \<and> fst (emit 1 ErrorEvent example_pending) = None
   \<and> effects (snd (emit 1 ErrorEvent example_pending))
       = [WsNew 1, Reject 1 (CouldNotConnect example_url_with_key)]
   \<and> WsClose 1 \<notin> set (effects (snd (emit 1 ErrorEvent example_pending)))
   \<and> \<not> isConnected (snd (emit 1 ErrorEvent example_pending))"
proof -
  have "emit 1 ErrorEvent example_pending =
          (None, example_pending
                   \<lparr>promise := (promise example_pending)
                                 (1 \<mapsto> Rejected (CouldNotConnect example_url_with_key)),
                    effects := [WsNew 1, Reject 1 (CouldNotConnect example_url_with_key)]\<rparr>)"
    by (simp add: emit_def connectionErrorHandler_def disconnect_def reject_def
        example_pending_def example_idle_def)
  moreover have "disconnect (Some 1) example_pending = (Undefined, example_pending)"
    by (simp add: disconnect_def example_pending_def example_idle_def)
  moreover have "ws example_pending = None"
    by (simp add: example_pending_def example_idle_def)
  moreover note example_pending_connecting
  ultimately show ?thesis
    by (simp add: isConnected_def)
qed

subsection \<open>C3: inbound data that is not JSON or has no type\<close>

text \<open>
  C3, as stated, fails.  The claim has inbound data that is not JSON reported through an
  event.  On the connected example object the \<^verbatim>\<open>message\<close> listener raises the SyntaxError
  of \<^verbatim>\<open>JSON.parse\<close> to the transport that called it, and nothing is dispatched.
\<close>

theorem inbound_not_json_raises_unreported:
  "emit 1 (MessageEvent NotJSON) example_open = (Some SyntaxError_JSON, example_open)
   \<and> new_effects example_open (snd (emit 1 (MessageEvent NotJSON) example_open)) = []"
  by (simp add: emit_def message_listener_def new_effects_def example_open_def
      example_idle_def)

text \<open>
  C3, amended.  For inbound data that is not JSON the \<^verbatim>\<open>message\<close> listener raises the
  SyntaxError and leaves the state as it was.  A JSON object \<open>m\<close> without a \<^verbatim>\<open>type\<close> field
  is handled as any event: it is logged when debugging and dispatched under
  \<^verbatim>\<open>server.undefined\<close> and \<^verbatim>\<open>server.*\<close>; no error is reported.  Whatever the inbound data,
  the listener leaves \<^verbatim>\<open>this.ws\<close> as it was, so a connected object stays connected.
\<close>

theorem inbound_malformed:
  assumes "fmlookup m ''type'' = None"
  shows "message_listener NotJSON st = (Some SyntaxError_JSON, st)
       \<and> message_listener (JSON (Obj m)) st =
           (None, st\<lparr>effects := effects st
                    @ (if debug st then [ConsoleLog (LogReceived Undefined (Obj m))] else [])
                    @ [Dispatch ''server.undefined'' (Obj m),
                       Dispatch ''server.*'' (Obj m)]\<rparr>)
       \<and> ws (snd (message_listener raw st)) = ws st"
proof -
  have "ws (snd (message_listener raw st)) = ws st"
    by (auto simp: message_listener_def receive_def dispatch_def log_def Let_def
        split: inbound.splits sum.splits)
  with assms show ?thesis
    by (simp add: message_listener_def receive_def dispatch_def log_def Let_def)
qed

text \<open>The amended C3 on the connected example object, for the object \<^verbatim>\<open>{"foo": 1}\<close>.\<close>

theorem inbound_malformed_witness:
  "fmlookup (fmap_of_list [(''foo'', Num 1)]) ''type'' = None
   \<and> message_listener NotJSON example_open = (Some SyntaxError_JSON, example_open)
   \<and> effects (snd (message_listener (JSON (Obj (fmap_of_list [(''foo'', Num 1)]))) example_open))
       = [WsNew 1, Resolve 1,
          Dispatch ''server.undefined'' (Obj (fmap_of_list [(''foo'', Num 1)])),
          Dispatch ''server.*'' (Obj (fmap_of_list [(''foo'', Num 1)]))]
   \<and> ws (snd (message_listener NotJSON example_open)) = Some 1"
proof -
  have h: "fmlookup (fmap_of_list [(''foo'', Num 1)]) ''type'' = None"
    by simp
  show ?thesis
    using h inbound_malformed [OF h, of example_open NotJSON]
    by (simp add: example_open_def example_idle_def)
qed


subsection \<open>C4: the order of dispatch and wire write in send\<close>

text \<open>
  C4, as stated, fails.  The claim has the event reach \<^verbatim>\<open>ws.send\<close> before the local
  dispatch.  For \<^verbatim>\<open>send('response.create', { foo: 1 })\<close> on the connected example object the
  effects are the two dispatches and then the wire write: when the listeners of the last
  dispatch run, nothing has been written yet.
\<close>

theorem send_writes_after_dispatch_example:
  "new_effects example_open
     (snd (send example_generateId ''response.create''
             (Obj (fmap_of_list [(''foo'', Num 1)])) example_open))
   = [Dispatch ''client.response.create''
        (build_event example_generateId ''response.create''
           (Obj (fmap_of_list [(''foo'', Num 1)]))),
      Dispatch ''client.*''
        (build_event example_generateId ''response.create''
           (Obj (fmap_of_list [(''foo'', Num 1)]))),
      WsSend 1
        (build_event example_generateId ''response.create''
           (Obj (fmap_of_list [(''foo'', Num 1)])))]
   \<and> written_before_last_dispatch
       (new_effects example_open
         (snd (send example_generateId ''response.create''
                 (Obj (fmap_of_list [(''foo'', Num 1)])) example_open))) = []"
  by (simp add: send_def isConnected_def dispatch_def log_def Let_def new_effects_def
      written_before_last_dispatch_def example_open_def example_idle_def)

text \<open>
  C4, amended.  For every \<^verbatim>\<open>send(type, payload)\<close> on a connected object, with a payload
  that is falsy or has \<^verbatim>\<open>typeof\<close> \<^verbatim>\<open>'object'\<close>, the event is dispatched under
  \<^verbatim>\<open>client.<type>\<close>, then under \<^verbatim>\<open>client.*\<close>, then logged when debugging, and only then
  handed to \<^verbatim>\<open>ws.send\<close>: a listener invoked by either dispatch finds no wire write of this
  call done.
\<close>

theorem send_dispatches_then_writes:
  assumes "ws st = Some h" and "typeof_object d \<or> \<not> truthy d"
      and "ev = build_event gen t d"
  shows "new_effects st (snd (send gen t d st))
           = [Dispatch (''client.'' @ t) ev, Dispatch ''client.*'' ev]
             @ (if debug st then [ConsoleLog (LogSent t ev)] else [])
             @ [WsSend h ev]
       \<and> written_before_first_dispatch (new_effects st (snd (send gen t d st))) = []
       \<and> written_before_last_dispatch (new_effects st (snd (send gen t d st))) = []"
  using assms(3)
  by (simp add: send_accepted [OF assms(1,2)] new_effects_def
      written_before_first_dispatch_def written_before_last_dispatch_def)

text \<open>
  The amended C4 for \<^verbatim>\<open>send('response.create', { foo: 1 })\<close> on the connected example
  object.
\<close>

theorem send_dispatches_then_writes_witness:
  "ws example_open = Some 1
   \<and> (typeof_object (Obj (fmap_of_list [(''foo'', Num 1)]))
        \<or> \<not> truthy (Obj (fmap_of_list [(''foo'', Num 1)])))
   \<and> written_before_first_dispatch
        (new_effects example_open
          (snd (send example_generateId ''response.create''
                  (Obj (fmap_of_list [(''foo'', Num 1)])) example_open))) = []
   \<and> written_before_last_dispatch
        (new_effects example_open
          (snd (send example_generateId ''response.create''
                  (Obj (fmap_of_list [(''foo'', Num 1)])) example_open))) = []"
proof -
  have h1: "ws example_open = Some 1"
    by (simp add: example_open_def)
  have h2: "typeof_object (Obj (fmap_of_list [(''foo'', Num 1)]))
            \<or> \<not> truthy (Obj (fmap_of_list [(''foo'', Num 1)]))"
    by simp
  show ?thesis
    using h1 h2
      send_dispatches_then_writes [OF h1 h2 refl, of example_generateId "''response.create''"]
    by blast
qed

subsection \<open>C5: the event that send builds\<close>

text \<open>
  C5, as stated, fails.  The claim has the dispatched event carry the given type.  For
  \<^verbatim>\<open>send('response.create', { type: 'other' })\<close> on the connected example object the event
  dispatched under \<^verbatim>\<open>client.response.create\<close> has the type \<^verbatim>\<open>other\<close>.
\<close>

theorem send_payload_type_replaces_given_type:
  "fst (send example_generateId ''response.create''
          (Obj (fmap_of_list [(''type'', Str ''other'')])) example_open) = Inr (Bool True)
   \<and> map (\<lambda>e. get_prop e ''type'')
        (dispatched ''client.response.create''
          (effects (snd (send example_generateId ''response.create''
                           (Obj (fmap_of_list [(''type'', Str ''other'')])) example_open))))
      = [Some (Str ''other'')]"
  by (simp add: send_def isConnected_def dispatch_def log_def Let_def build_event_def
      get_prop_def example_open_def example_idle_def)

text \<open>
  C5, amended.  For every \<^verbatim>\<open>send(type, payload)\<close> on a connected object, with a payload
  that is falsy or has \<^verbatim>\<open>typeof\<close> \<^verbatim>\<open>'object'\<close>, \<^verbatim>\<open>send\<close> returns \<^verbatim>\<open>true\<close> and dispatches one
  event under \<^verbatim>\<open>client.<type>\<close> and under \<^verbatim>\<open>client.*\<close>.  The event has every property of
  the payload with its value.  Unless the payload has a \<^verbatim>\<open>type\<close> property of its own, the
  event has the given type; unless the payload has an \<^verbatim>\<open>event_id\<close> property of its own,
  the event has the identifier generated at this call, which is not empty and differs
  from the identifier of every other call of the generator.  The event is built on a
  shallow copy of the payload: with the payload at the address \<open>p\<close> of a store and \<open>a\<close> an
  address not in use, the literal leaves at \<open>a\<close>, which is not \<open>p\<close>, an object with the
  properties of the event, and every other object of the store, the payload among them,
  as it was.
\<close>

theorem send_event_contents:
  assumes "ws st = Some h" and "typeof_object d \<or> \<not> truthy d"
      and "ev = build_event (generateId n) t d"
      and "s a = None" and "s p = Some (own_props d)"
  shows "fst (send (generateId n) t d st) = Inr (Bool True)
       \<and> Dispatch (''client.'' @ t) ev \<in> set (new_effects st (snd (send (generateId n) t d st)))
       \<and> Dispatch ''client.*'' ev \<in> set (new_effects st (snd (send (generateId n) t d st)))
       \<and> (\<forall>k v. get_prop d k = Some v \<longrightarrow> get_prop ev k = Some v)
       \<and> (get_prop d ''type'' = None \<longrightarrow> get_prop ev ''type'' = Some (Str t))
       \<and> (get_prop d ''event_id'' = None \<longrightarrow>
            get_prop ev ''event_id'' = Some (Str (generateId n ''evt_'')))
       \<and> generateId n ''evt_'' \<noteq> []
       \<and> (\<forall>m. m \<noteq> n \<longrightarrow> generateId m ''evt_'' \<noteq> generateId n ''evt_'')
       \<and> event_literal (generateId n) t p a s a = Some (own_props ev)
       \<and> a \<noteq> p
       \<and> (\<forall>q. q \<noteq> a \<longrightarrow> event_literal (generateId n) t p a s q = s q)"
proof -
  have sent: "fst (send (generateId n) t d st) = Inr (Bool True)
       \<and> Dispatch (''client.'' @ t) ev \<in> set (new_effects st (snd (send (generateId n) t d st)))
       \<and> Dispatch ''client.*'' ev \<in> set (new_effects st (snd (send (generateId n) t d st)))"
    using assms(3) by (simp add: send_accepted [OF assms(1,2)] new_effects_def)
  have props: "(\<forall>k v. get_prop d k = Some v \<longrightarrow> get_prop ev k = Some v)
       \<and> (get_prop d ''type'' = None \<longrightarrow> get_prop ev ''type'' = Some (Str t))
       \<and> (get_prop d ''event_id'' = None \<longrightarrow>
            get_prop ev ''event_id'' = Some (Str (generateId n ''evt_'')))"
    using assms(3)
    by (simp add: build_event_payload build_event_type build_event_id get_prop_def [of d])
  have ident: "generateId n ''evt_'' \<noteq> []
       \<and> (\<forall>m. m \<noteq> n \<longrightarrow> generateId m ''evt_'' \<noteq> generateId n ''evt_'')"
    using generateId_not_empty generateId_fresh by blast
  have ne: "a \<noteq> p"
    using assms(4,5) by auto
  have stored: "event_literal (generateId n) t p a s a = Some (own_props ev)
       \<and> (\<forall>q. q \<noteq> a \<longrightarrow> event_literal (generateId n) t p a s q = s q)"
    using assms(3) by (simp add: event_literal_fresh [OF assms(4,5)] build_event_def)
  from sent props ident ne stored show ?thesis
    by blast
qed

text \<open>
  The amended C5 for \<^verbatim>\<open>send('response.create', { foo: 1 })\<close> on the connected example
  object, at call \<open>1\<close> of the generator, with the payload at the address \<open>7\<close> of the
  example store and the event made at the address \<open>8\<close>.
\<close>

theorem send_event_contents_witness:
  "ws example_open = Some 1
   \<and> (typeof_object (Obj (fmap_of_list [(''foo'', Num 1)]))
        \<or> \<not> truthy (Obj (fmap_of_list [(''foo'', Num 1)])))
   \<and> example_store 8 = None
   \<and> example_store 7
       = Some (own_props (Obj (fmap_of_list [(''foo'', Num 1)])))
   \<and> get_prop (Obj (fmap_of_list [(''foo'', Num 1)])) ''foo'' = Some (Num 1)
   \<and> get_prop (Obj (fmap_of_list [(''foo'', Num 1)])) ''type'' = None
   \<and> get_prop (Obj (fmap_of_list [(''foo'', Num 1)])) ''event_id'' = None
   \<and> fst (send (generateId 1) ''response.create''
            (Obj (fmap_of_list [(''foo'', Num 1)])) example_open) = Inr (Bool True)
   \<and> get_prop (build_event (generateId 1) ''response.create''
                 (Obj (fmap_of_list [(''foo'', Num 1)]))) ''foo'' = Some (Num 1)
   \<and> get_prop (build_event (generateId 1) ''response.create''
                 (Obj (fmap_of_list [(''foo'', Num 1)]))) ''type''
       = Some (Str ''response.create'')
   \<and> get_prop (build_event (generateId 1) ''response.create''
                 (Obj (fmap_of_list [(''foo'', Num 1)]))) ''event_id''
       = Some (Str ''evt_1'')
   \<and> generateId 1 ''evt_'' \<noteq> []
   \<and> generateId 0 ''evt_'' \<noteq> generateId 1 ''evt_''
   \<and> event_literal (generateId 1) ''response.create'' 7 8
        example_store 8
       = Some (own_props (build_event (generateId 1) ''response.create''
                 (Obj (fmap_of_list [(''foo'', Num 1)]))))
   \<and> event_literal (generateId 1) ''response.create'' 7 8
        example_store 7
       = Some (fmap_of_list [(''foo'', Num 1)])"
proof -
  have h1: "ws example_open = Some 1"
    by (simp add: example_open_def)
  have h2: "typeof_object (Obj (fmap_of_list [(''foo'', Num 1)]))
            \<or> \<not> truthy (Obj (fmap_of_list [(''foo'', Num 1)]))"
    by simp
  have h4: "example_store 8 = None"
    by (simp add: example_store_def)
  have h5: "example_store 7
              = Some (own_props (Obj (fmap_of_list [(''foo'', Num 1)])))"
    by (simp add: example_store_def)
  have g: "get_prop (Obj (fmap_of_list [(''foo'', Num 1)])) ''foo'' = Some (Num 1)"
    "get_prop (Obj (fmap_of_list [(''foo'', Num 1)])) ''type'' = None"
    "get_prop (Obj (fmap_of_list [(''foo'', Num 1)])) ''event_id'' = None"
    by (simp_all add: get_prop_def)
  have i: "generateId 1 ''evt_'' = ''evt_1''"
    by (simp add: generateId_def)
  note T = send_event_contents [OF h1 h2 refl h4 h5, of 1 "''response.create''"]
  have c1: "fst (send (generateId 1) ''response.create''
            (Obj (fmap_of_list [(''foo'', Num 1)])) example_open) = Inr (Bool True)"
    using T by blast
  have c2: "get_prop (build_event (generateId 1) ''response.create''
                 (Obj (fmap_of_list [(''foo'', Num 1)]))) ''foo'' = Some (Num 1)"
    using T g(1) by blast
  have c3: "get_prop (build_event (generateId 1) ''response.create''
                 (Obj (fmap_of_list [(''foo'', Num 1)]))) ''type''
       = Some (Str ''response.create'')"
    using T g(2) by blast
  have "get_prop (build_event (generateId 1) ''response.create''
                 (Obj (fmap_of_list [(''foo'', Num 1)]))) ''event_id''
       = Some (Str (generateId 1 ''evt_''))"
    using T g(3) by blast
  then have c4: "get_prop (build_event (generateId 1) ''response.create''
                 (Obj (fmap_of_list [(''foo'', Num 1)]))) ''event_id''
       = Some (Str ''evt_1'')"
    by (simp only: i)
  have c5: "generateId 1 ''evt_'' \<noteq> []"
    using T by blast
  have "(0::nat) \<noteq> 1"
    by simp
  then have c6: "generateId 0 ''evt_'' \<noteq> generateId 1 ''evt_''"
    using T by blast
  have c7: "event_literal (generateId 1) ''response.create'' 7 8 example_store 8
       = Some (own_props (build_event (generateId 1) ''response.create''
                 (Obj (fmap_of_list [(''foo'', Num 1)]))))"
    using T by blast
  have "(7::nat) \<noteq> 8"
    by simp
  then have "event_literal (generateId 1) ''response.create'' 7 8 example_store 7
               = example_store 7"
    using T by blast
  then have c8: "event_literal (generateId 1) ''response.create'' 7 8 example_store 7
       = Some (fmap_of_list [(''foo'', Num 1)])"
    by (simp add: example_store_def)
  from h1 h2 h4 h5 g c1 c2 c3 c4 c5 c6 c7 c8 show ?thesis
    by (intro conjI)
qed

subsection \<open>C6: what send rejects\<close>

text \<open>
  C6, as stated, fails.  The claim has \<^verbatim>\<open>send\<close> raise for every payload that is not a
  key-value mapping.  \<^verbatim>\<open>send('response.create', [1])\<close> on the connected example object
  returns \<^verbatim>\<open>true\<close>: an array has \<^verbatim>\<open>typeof\<close> \<^verbatim>\<open>'object'\<close>, and the event sent has the
  property \<^verbatim>\<open>0\<close> of the array.
\<close>

theorem send_accepts_array_payload:
  "send example_generateId ''response.create'' (Arr [Num 1]) example_open
     = (Inr (Bool True),
        example_open\<lparr>effects := effects example_open
          @ [Dispatch ''client.response.create''
               (build_event example_generateId ''response.create'' (Arr [Num 1])),
             Dispatch ''client.*''
               (build_event example_generateId ''response.create'' (Arr [Num 1])),
             WsSend 1 (build_event example_generateId ''response.create'' (Arr [Num 1]))]\<rparr>)
   \<and> get_prop (build_event example_generateId ''response.create'' (Arr [Num 1])) ''0''
       = Some (Num 1)"
  by (simp add: send_def isConnected_def dispatch_def log_def Let_def build_event_def
      get_prop_def example_open_def example_idle_def)

text \<open>
  C6, amended.  For every \<^verbatim>\<open>send\<close> on an object that is not connected, \<^verbatim>\<open>send\<close> raises the
  not-connected error and leaves the state as it was: no wire write, no dispatch.  For
  every \<^verbatim>\<open>send\<close> on a connected object with a payload that is truthy and whose \<^verbatim>\<open>typeof\<close>
  is not \<^verbatim>\<open>'object'\<close> (a non-empty string, a non-zero number, \<^verbatim>\<open>true\<close>), \<^verbatim>\<open>send\<close> raises the
  error \<^verbatim>\<open>data must be an object\<close> and leaves the state as it was.
\<close>

theorem send_rejections:
  assumes "\<not> isConnected st" and "isConnected st'" and "truthy d'" and "\<not> typeof_object d'"
  shows "send gen t d st = (Inl NotConnected, st)
       \<and> send gen t d' st' = (Inl DataMustBeObject, st')"
  using assms by (simp add: send_def)

text \<open>
  The amended C6 on the example objects: \<^verbatim>\<open>send('response.create', { foo: 1 })\<close> before
  connecting, and \<^verbatim>\<open>send('response.create', 'abc')\<close> when connected.
\<close>

theorem send_rejections_witness:
  "\<not> isConnected example_idle \<and> isConnected example_open
   \<and> truthy (Str ''abc'') \<and> \<not> typeof_object (Str ''abc'')
   \<and> send example_generateId ''response.create'' (Obj (fmap_of_list [(''foo'', Num 1)]))
        example_idle = (Inl NotConnected, example_idle)
   \<and> send example_generateId ''response.create'' (Str ''abc'') example_open
       = (Inl DataMustBeObject, example_open)"
proof -
  have h: "\<not> isConnected example_idle" "isConnected example_open"
    "truthy (Str ''abc'')" "\<not> typeof_object (Str ''abc'')"
    by (simp_all add: isConnected_def example_idle_def example_open_def)
  show ?thesis
    using h send_rejections [OF h] by simp
qed

subsection \<open>C7: disconnect is idempotent\<close>

text \<open>
  A whole run on the connected example object: \<^verbatim>\<open>disconnect()\<close>, the \<^verbatim>\<open>close\<close> event that
  the transport emits for it, and \<^verbatim>\<open>disconnect()\<close> again.  The listener of the transport's
  \<^verbatim>\<open>close\<close> dispatches one \<^verbatim>\<open>close\<close> event, and the second call adds nothing.
\<close>

lemma disconnect_twice_example:
  "dispatched ''close''
     (effects (snd (disconnect None
        (snd (emit 1 CloseEvent (snd (disconnect None example_open)))))))
   = [Obj (fmap_of_list [(''error'', Bool False)])]
   \<and> effects (snd (disconnect None
        (snd (emit 1 CloseEvent (snd (disconnect None example_open))))))
     = [WsNew 1, Resolve 1, WsClose 1,
        Dispatch ''close'' (Obj (fmap_of_list [(''error'', Bool False)]))]"
  by (simp add: disconnect_def emit_def close_listener_def log_def dispatch_def
      example_open_def example_idle_def)

text \<open>
  C7.  In every state, \<^verbatim>\<open>disconnect()\<close> returns \<^verbatim>\<open>true\<close> and leaves the object not
  connected, with the handle cleared; its only effect is to close the transport object
  that was held, if one was.  A second \<^verbatim>\<open>disconnect()\<close> right after it returns \<^verbatim>\<open>true\<close>
  and changes nothing: it closes no transport, so no further \<^verbatim>\<open>close\<close> notification
  follows from it, and neither call dispatches a \<^verbatim>\<open>close\<close> event itself.
\<close>

theorem disconnect_idempotent:
  "fst (disconnect None st) = Bool True
   \<and> \<not> isConnected (snd (disconnect None st))
   \<and> ws (snd (disconnect None st)) = None
   \<and> effects (snd (disconnect None st))
       = effects st @ (case ws st of None \<Rightarrow> [] | Some h \<Rightarrow> [WsClose h])
   \<and> disconnect None (snd (disconnect None st)) = (Bool True, snd (disconnect None st))
   \<and> dispatched ''close'' (effects (snd (disconnect None (snd (disconnect None st)))))
       = dispatched ''close'' (effects st)"
proof -
  have d: "dispatched n (xs @ [WsClose h]) = dispatched n xs" for n xs h
    by (induction n xs rule: dispatched.induct) auto
  show ?thesis
    by (auto simp: disconnect_def isConnected_def d split: option.splits)
qed

subsection \<open>C8: construction without a URL\<close>

text \<open>
  C8.  Without a URL the constructor is to fall back to the default endpoint.  The code
  does not: \<^verbatim>\<open>new RealtimeAPI({ apiKey: 'k' })\<close>, outside a browser, raises the
  ReferenceError of the undeclared identifier \<^verbatim>\<open>defaultUrl\<close>, and no object is made.
  Without a credential, \<^verbatim>\<open>new RealtimeAPI({})\<close> raises the same ReferenceError, not the
  error of a missing credential.
\<close>

theorem constructor_without_url_raises:
  "constructor False Absent (Some ''k'') False False = Inl ReferenceError_defaultUrl
   \<and> constructor False Absent None False False = Inl ReferenceError_defaultUrl"
  by (simp add: constructor_def)

subsection \<open>C9: the opt-in flag of the browser\<close>

text \<open>
  C9, as stated, fails.  The claim has construction succeed in a browser whenever a
  credential is present and the opt-in flag is set.  With the flag set,
  \<^verbatim>\<open>new RealtimeAPI({ url: 'wss://h/p?api-key=k', apiKey: 'j',
  dangerouslyAllowAPIKeyInBrowser: true })\<close> raises the mismatch error.
\<close>

theorem constructor_conflict_in_browser_with_flag:
  "constructor True (WellFormed example_url_with_key) (Some ''j'') True False
     = Inl ApiKeyMismatch"
  by (simp add: constructor_def example_url_with_key_def or_else_def)

text \<open>
  C9, amended.  For every construction in a browser-like environment with a URL that
  parses, where a credential is present (embedded in the URL or explicit) and the two
  sources, when both present, agree: without the opt-in flag the constructor raises the
  error of the browser check; with the flag construction succeeds, and the stored
  credential is the embedded one if present, else the explicit one.
\<close>

theorem constructor_browser_opt_in:
  assumes cred: "present (sp_get ''api-key'' (searchParams u)) \<or> present a"
      and agree: "\<not> (present (sp_get ''api-key'' (searchParams u)) \<and> present a
                       \<and> sp_get ''api-key'' (searchParams u) \<noteq> a)"
  shows "constructor True (WellFormed u) a False dbg = Inl ApiKeyInBrowser
       \<and> (\<exists>st. constructor True (WellFormed u) a True dbg = Inr st
                \<and> apiKey st = or_else (sp_get ''api-key'' (searchParams u)) a)"
  using assms
  by (auto simp: constructor_def or_else_def Let_def)

text \<open>
  The amended C9 at the URL \<^verbatim>\<open>wss://h/p\<close> with the explicit credential \<open>k\<close>.
\<close>

theorem constructor_browser_opt_in_witness:
  "(present (sp_get ''api-key'' (searchParams example_url)) \<or> present (Some ''k''))
   \<and> \<not> (present (sp_get ''api-key'' (searchParams example_url)) \<and> present (Some ''k'')
          \<and> sp_get ''api-key'' (searchParams example_url) \<noteq> Some ''k'')
   \<and> constructor True (WellFormed example_url) (Some ''k'') False False = Inl ApiKeyInBrowser
   \<and> (\<exists>st. constructor True (WellFormed example_url) (Some ''k'') True False = Inr st
         \<and> apiKey st = or_else (sp_get ''api-key'' (searchParams example_url)) (Some ''k''))"
proof -
  have h1: "present (sp_get ''api-key'' (searchParams example_url)) \<or> present (Some ''k'')"
    by simp
  have h2: "\<not> (present (sp_get ''api-key'' (searchParams example_url)) \<and> present (Some ''k'')
                  \<and> sp_get ''api-key'' (searchParams example_url) \<noteq> Some ''k'')"
    by (simp add: example_url_def)
  show ?thesis
    using h1 h2 constructor_browser_opt_in [OF h1 h2, of False]
    by simp
qed

subsection \<open>C10: a payload with its own event_id or type\<close>

text \<open>
  C10.  For every \<^verbatim>\<open>send(type, payload)\<close> on a connected object where the payload is an
  object \<open>m\<close>: one event is dispatched under \<^verbatim>\<open>client.<type>\<close> and \<^verbatim>\<open>client.*\<close> and written
  to the transport, and where \<open>m\<close> has a \<^verbatim>\<open>type\<close> or an \<^verbatim>\<open>event_id\<close> property, that event
  carries the value of \<open>m\<close> for it, whatever the given type and the generated identifier
  are.
\<close>

theorem send_payload_replaces_stamped_fields:
  assumes "ws st = Some h" and "ev = build_event gen t (Obj m)"
  shows "new_effects st (snd (send gen t (Obj m) st))
           = [Dispatch (''client.'' @ t) ev, Dispatch ''client.*'' ev]
             @ (if debug st then [ConsoleLog (LogSent t ev)] else [])
             @ [WsSend h ev]
       \<and> (\<forall>v. fmlookup m ''type'' = Some v \<longrightarrow> get_prop ev ''type'' = Some v)
       \<and> (\<forall>v. fmlookup m ''event_id'' = Some v \<longrightarrow> get_prop ev ''event_id'' = Some v)"
proof -
  have acc: "typeof_object (Obj m) \<or> \<not> truthy (Obj m)"
    by simp
  show ?thesis
    using assms(2)
    by (simp add: send_accepted [OF assms(1) acc] new_effects_def build_event_payload)
qed

text \<open>
  C10 for \<^verbatim>\<open>send('response.create', { type: 'other', event_id: 'mine' })\<close> on the connected
  example object.
\<close>

theorem send_payload_replaces_stamped_fields_witness:
  "ws example_open = Some 1
   \<and> fmlookup (fmap_of_list [(''type'', Str ''other''), (''event_id'', Str ''mine'')]) ''type''
       = Some (Str ''other'')
   \<and> fmlookup (fmap_of_list [(''type'', Str ''other''), (''event_id'', Str ''mine'')])
        ''event_id'' = Some (Str ''mine'')
   \<and> get_prop (build_event example_generateId ''response.create''
        (Obj (fmap_of_list [(''type'', Str ''other''), (''event_id'', Str ''mine'')]))) ''type''
       = Some (Str ''other'')
   \<and> get_prop (build_event example_generateId ''response.create''
        (Obj (fmap_of_list [(''type'', Str ''other''), (''event_id'', Str ''mine'')])))
        ''event_id'' = Some (Str ''mine'')"
proof -
  have h1: "ws example_open = Some 1"
    by (simp add: example_open_def)
  show ?thesis
    using h1
      send_payload_replaces_stamped_fields [OF h1 refl, of example_generateId
        "''response.create''"
        "fmap_of_list [(''type'', Str ''other''), (''event_id'', Str ''mine'')]"]
    by simp
qed

end
